theory Spec2Isabelle
  imports Complex_Main
begin

section \<open>Configuration (class SystemConfig)\<close>

text \<open>
  The dataclass \<open>SystemConfig\<close> of \<open>server_improve_fixed.py\<close>. The program builds it
  once as \<open>SystemConfig()\<close>, so every field has its default; the functions below still
  read the fields through the record, as the source reads \<open>self.config\<close>.
  Durations are in seconds, the threshold is a fraction. Python's floats are modelled
  as reals; the product \<open>CONFIDENCE_THRESHOLD * 100\<close> of the default, \<open>0.85 * 100\<close>, is
  exactly \<open>85.0\<close> in double arithmetic too.
\<close>

record SystemConfig =
  PUMP_RELAY_PIN :: int
  PUMP_RELAY_PIN_2 :: int
  SOLENOID_VALVE_PIN_1 :: int
  SOLENOID_VALVE_PIN_2 :: int
  CONFIDENCE_THRESHOLD :: real
  DETECTION_DELAY_MINUTES :: int
  PUMP1_DURATION :: nat
  WAIT_BETWEEN_PUMPS :: nat
  PUMP2_DURATION :: nat

definition default_config :: SystemConfig where
  "default_config =
     \<lparr> PUMP_RELAY_PIN = 17, PUMP_RELAY_PIN_2 = 27,
       SOLENOID_VALVE_PIN_1 = 23, SOLENOID_VALVE_PIN_2 = 24,
       CONFIDENCE_THRESHOLD = 85 / 100, DETECTION_DELAY_MINUTES = 5,
       PUMP1_DURATION = 50, WAIT_BETWEEN_PUMPS = 60, PUMP2_DURATION = 20 \<rparr>"

text \<open>
  \<open>MAX_DETECTION_HISTORY\<close> and \<open>MAX_ACTIVITY_LOG\<close> are read from the class itself
  (\<open>SystemConfig.MAX_DETECTION_HISTORY\<close>), not from an instance: they are constants.
\<close>

definition MAX_DETECTION_HISTORY :: nat where
  "MAX_DETECTION_HISTORY = 50"

definition MAX_ACTIVITY_LOG :: nat where
  "MAX_ACTIVITY_LOG = 200"


section \<open>Strings\<close>

text \<open>
  Python strings are modelled as their UTF-8 bytes. \<open>str_upper\<close> and \<open>str_lower\<close> map
  the ASCII letters and leave every other byte alone. Python's \<open>str.upper\<close> also maps
  letters outside ASCII, but none of them to \<open>O\<close> or \<open>N\<close>, so the test
  \<open>action.upper() == "ON"\<close> has the same outcome in the model.
\<close>

definition upper_char :: "char \<Rightarrow> char" where
  "upper_char c =
     (let n = (of_char c :: nat) in if 97 \<le> n \<and> n \<le> 122 then char_of (n - 32) else c)"

definition lower_char :: "char \<Rightarrow> char" where
  "lower_char c =
     (let n = (of_char c :: nat) in if 65 \<le> n \<and> n \<le> 90 then char_of (n + 32) else c)"

definition str_upper :: "string \<Rightarrow> string" where
  "str_upper s = map upper_char s"

definition str_lower :: "string \<Rightarrow> string" where
  "str_lower s = map lower_char s"

text \<open>Decimal rendering of an integer, as an f-string writes it.\<close>

function str_of_nat :: "nat \<Rightarrow> string" where
  "str_of_nat n =
     (if n < 10 then [char_of (48 + n)]
      else str_of_nat (n div 10) @ [char_of (48 + n mod 10)])"
  by pat_completeness auto
termination
  by (relation "measure (\<lambda>n. n)") auto

declare str_of_nat.simps [simp del]

definition str_of_int :: "int \<Rightarrow> string" where
  "str_of_int i = (if i < 0 then CHR ''-'' # str_of_nat (nat (- i)) else str_of_nat (nat i))"

section \<open>Exceptions and results\<close>

text \<open>
  The exceptions the modelled code can see: an error of the \<open>lgpio\<close> driver and the
  program's own \<open>AudioProcessingError\<close>, each with its text (\<open>str(e)\<close>).
\<close>

datatype exn = LgpioError string | AudioProcessingError string

fun str_of_exn :: "exn \<Rightarrow> string" where
  "str_of_exn (LgpioError m) = m"
| "str_of_exn (AudioProcessingError m) = m"

text \<open>The \<open>{"success": ..., "message": ...}\<close> dictionary the operations return.\<close>

record reply =
  success :: bool
  message :: string

section \<open>The shared store (class ThreadSafeData)\<close>

text \<open>The dictionary returned by \<open>ModelHandler.predict\<close>; the confidence is a percentage.\<close>

record prediction =
  class_id :: int
  class_name :: string
  confidence :: real
  model_type :: string

text \<open>The \<open>history_entry\<close> dictionary built in \<open>record_and_predict\<close>.\<close>

record history_entry =
  timestamp :: string
  result :: prediction
  audio_file :: string

text \<open>The dictionary \<open>_system_status\<close>, with the keys of \<open>__init__\<close>.\<close>

record system_status =
  is_recording :: bool
  pump_status :: bool
  auto_detect_enabled :: bool
  detection_delay :: int
  model_loaded :: bool
  gpio_ready :: bool
  snoring_response_active :: bool

definition initial_status :: system_status where
  "initial_status =
     \<lparr> is_recording = False, pump_status = False, auto_detect_enabled = False,
       detection_delay = 5, model_loaded = False, gpio_ready = False,
       snoring_response_active = False \<rparr>"

text \<open>
  The messages given to \<open>add_log_entry\<close>. Each constructor stands for one f-string of
  the source and carries the values that the f-string formats; the time stamp that
  \<open>add_log_entry\<close> reads from the clock is left out.
\<close>

datatype log_msg =
    Log_pump_on int
  | Log_pump_off int
  | Log_pump_error int string
  | Log_valve_on int
  | Log_valve_off int
  | Log_valve_error int string
  | Log_response_starting
  | Log_step1_activating nat
  | Log_interrupted_pump1
  | Log_step1_completed
  | Log_step1_failed string
  | Log_step2_waiting nat
  | Log_interrupted_waiting
  | Log_waiting_remaining nat
  | Log_step3_activating nat
  | Log_interrupted_pump2
  | Log_step3_completed
  | Log_step3_failed string
  | Log_response_completed
  | Log_response_failed string
  | Log_recording
  | Log_audio_saved string
  | Log_recording_failed string
  | Log_failed_to_record
  | Log_file_not_created string
  | Log_file_created string nat
  | Log_prediction_failed
  | Log_prediction string real string
  | Log_debug_threshold real real bool
  | Log_debug_class string bool bool
  | Log_debug_already_active bool
  | Log_already_in_progress
  | Log_triggering string real real
  | Log_thread_started
  | Log_confidence_too_low string real real
  | Log_no_snoring string
  | Log_cleaned_up string
  | Log_record_and_predict_failed string
  | Log_auto_started
  | Log_auto_stopped
  | Log_delay_set int
  | Log_gpio_initialized int int
  | Log_gpio_init_failed string

record ThreadSafeData =
  detection_history :: "history_entry list"
  activity_log :: "log_msg list"
  system_status :: system_status

text \<open>
  \<open>pop_first\<close> is \<open>list.pop(0)\<close> with its result dropped. It is only called on a list
  that has just been appended to, so the \<open>IndexError\<close> of the empty list cannot occur.
\<close>

fun pop_first :: "'a list \<Rightarrow> 'a list" where
  "pop_first [] = []"
| "pop_first (x # xs) = xs"

definition add_detection_record :: "ThreadSafeData \<Rightarrow> history_entry \<Rightarrow> ThreadSafeData" where
  "add_detection_record ds record =
     (let h = detection_history ds @ [record]
      in ds\<lparr>detection_history :=
              (if length h > MAX_DETECTION_HISTORY then pop_first h else h)\<rparr>)"

text \<open>A run of \<open>add_detection_record\<close> calls, the first call first.\<close>

fun add_detection_records :: "ThreadSafeData \<Rightarrow> history_entry list \<Rightarrow> ThreadSafeData" where
  "add_detection_records ds [] = ds"
| "add_detection_records ds (r # rs) = add_detection_records (add_detection_record ds r) rs"

definition store_add_log_entry :: "ThreadSafeData \<Rightarrow> log_msg \<Rightarrow> ThreadSafeData" where
  "store_add_log_entry ds msg =
     (let l = activity_log ds @ [msg]
      in ds\<lparr>activity_log := (if length l > MAX_ACTIVITY_LOG then pop_first l else l)\<rparr>)"

definition initial_store :: ThreadSafeData where
  "initial_store =
     \<lparr> detection_history = [], activity_log = [], system_status = initial_status \<rparr>"

section \<open>The state of the running system\<close>

text \<open>
  What the program does to the outside, in the order it does it: a write to a GPIO
  line that took effect, a write that the driver refused, a \<open>time.sleep\<close> and a
  \<open>Thread.join\<close> with its timeout, both in milliseconds.
\<close>

datatype event = GpioWrite int int | GpioWriteFailed int int | Sleep nat | Join nat

datatype task = Auto_detection_loop | Snoring_response

text \<open>\<open>_auto_detection_thread\<close>: \<open>None\<close>, or a thread object that is alive or not.\<close>

datatype thread = No_thread | Thread bool

fun is_alive :: "thread \<Rightarrow> bool" where
  "is_alive No_thread = False"
| "is_alive (Thread alive) = alive"

text \<open>
  One record holds the objects of \<open>SnoreDetectionSystem\<close>: the store, the GPIO
  controller's flag, the levels of the output lines, the loop thread, the stop event
  and the list of the threads started so far. \<open>fault\<close> is the driver's behaviour the
  program cannot choose: a line on which \<open>lgpio.gpio_write\<close> raises, with the text of
  the error.
\<close>

record world =
  data_store :: ThreadSafeData
  gpio_initialized :: bool
  level :: "int \<Rightarrow> int"
  fault :: "int \<Rightarrow> string option"
  trace :: "event list"
  auto_detection_thread :: thread
  stop_event :: bool
  started :: "task list"

text \<open>
  The state when \<open>SnoreDetectionSystem.__init__\<close> has built the store and before the
  GPIO controller has tried the driver.
\<close>

definition initial_world :: world where
  "initial_world =
     \<lparr> data_store = initial_store, gpio_initialized = False,
       level = (\<lambda>pin. 0), fault = (\<lambda>pin. None), trace = [],
       auto_detection_thread = No_thread, stop_event = False, started = [] \<rparr>"

definition update_status :: "(system_status \<Rightarrow> system_status) \<Rightarrow> world \<Rightarrow> world" where
  "update_status f w =
     w\<lparr>data_store := (data_store w)\<lparr>system_status := f (system_status (data_store w))\<rparr>\<rparr>"

definition get_status :: "world \<Rightarrow> system_status" where
  "get_status w = system_status (data_store w)"

definition add_log_entry :: "log_msg \<Rightarrow> world \<Rightarrow> world" where
  "add_log_entry msg w = w\<lparr>data_store := store_add_log_entry (data_store w) msg\<rparr>"

definition sleep :: "nat \<Rightarrow> world \<Rightarrow> world" where
  "sleep ms w = w\<lparr>trace := trace w @ [Sleep ms]\<rparr>"

text \<open>
  A computation either raises, \<open>Inl\<close>, or returns, \<open>Inr\<close>; both carry the state reached,
  since what was written before an exception stays written.
\<close>

type_synonym 'a outcome = "(exn \<times> world) + ('a \<times> world)"

definition bind_outcome :: "'a outcome \<Rightarrow> ('a \<Rightarrow> world \<Rightarrow> 'b outcome) \<Rightarrow> 'b outcome" where
  "bind_outcome m k = (case m of Inl ew \<Rightarrow> Inl ew | Inr (x, w) \<Rightarrow> k x w)"

definition gpio_write :: "int \<Rightarrow> int \<Rightarrow> world \<Rightarrow> unit outcome" where
  "gpio_write pin v w =
     (case fault w pin of
        Some err \<Rightarrow> Inl (LgpioError err, w\<lparr>trace := trace w @ [GpioWriteFailed pin v]\<rparr>)
      | None \<Rightarrow> Inr ((), w\<lparr>level := (level w)(pin := v), trace := trace w @ [GpioWrite pin v]\<rparr>))"

section \<open>The GPIO controller (class GPIOController)\<close>

text \<open>
  The \<open>try\<close> block of \<open>control_pump\<close>. The controller's lock serialises whole calls, so
  a call is one step of the sequential model.
\<close>

definition control_pump_try :: "SystemConfig \<Rightarrow> int \<Rightarrow> string \<Rightarrow> world \<Rightarrow> reply outcome" where
  "control_pump_try cfg pin_number action w =
     (if pin_number \<noteq> 1 \<and> pin_number \<noteq> 2
      then Inr (\<lparr>success = False, message = ''Invalid pump number (must be 1 or 2)''\<rparr>, w)
      else
        let pump_pin = (if pin_number = 1 then PUMP_RELAY_PIN cfg else PUMP_RELAY_PIN_2 cfg);
            valve_pin =
              (if pin_number = 1 then SOLENOID_VALVE_PIN_1 cfg else SOLENOID_VALVE_PIN_2 cfg);
            ok = \<lparr>success = True,
                  message = ''Pump '' @ str_of_int pin_number @ '' and Valve ''
                    @ str_of_int pin_number @ '' '' @ str_lower action @ '' successful''\<rparr>
        in if str_upper action = ''ON''
           then
             bind_outcome (gpio_write valve_pin 1 w) (\<lambda>_ w1.
             bind_outcome (gpio_write pump_pin 1 (sleep 100 w1)) (\<lambda>_ w2.
               let w3 =
                     (if pin_number = 1
                      then update_status (\<lambda>s. s\<lparr>pump_status := True\<rparr>) w2 else w2)
               in Inr (ok, add_log_entry (Log_pump_on pin_number) w3)))
           else
             bind_outcome (gpio_write pump_pin 0 w) (\<lambda>_ w1.
             bind_outcome (gpio_write valve_pin 0 (sleep 100 w1)) (\<lambda>_ w2.
               let w3 =
                     (if pin_number = 1
                      then update_status (\<lambda>s. s\<lparr>pump_status := False\<rparr>) w2 else w2)
               in Inr (ok, add_log_entry (Log_pump_off pin_number) w3))))"

definition control_pump :: "SystemConfig \<Rightarrow> int \<Rightarrow> string \<Rightarrow> world \<Rightarrow> reply outcome" where
  "control_pump cfg pin_number action w =
     (if \<not> gpio_initialized w
      then Inr (\<lparr>success = False, message = ''GPIO not available''\<rparr>, w)
      else
        case control_pump_try cfg pin_number action w of
          Inr rw \<Rightarrow> Inr rw
        | Inl (e, w') \<Rightarrow>
            Inr (\<lparr>success = False, message = str_of_exn e\<rparr>,
                 add_log_entry (Log_pump_error pin_number (str_of_exn e)) w'))"

definition control_valve_try :: "SystemConfig \<Rightarrow> int \<Rightarrow> string \<Rightarrow> world \<Rightarrow> reply outcome" where
  "control_valve_try cfg valve_number action w =
     (if valve_number \<noteq> 1 \<and> valve_number \<noteq> 2
      then Inr (\<lparr>success = False, message = ''Invalid valve number (must be 1 or 2)''\<rparr>, w)
      else
        let valve_pin =
              (if valve_number = 1 then SOLENOID_VALVE_PIN_1 cfg else SOLENOID_VALVE_PIN_2 cfg);
            ok = \<lparr>success = True,
                  message = ''Valve '' @ str_of_int valve_number @ '' '' @ str_lower action
                    @ '' successful''\<rparr>
        in if str_upper action = ''ON''
           then
             bind_outcome (gpio_write valve_pin 1 w) (\<lambda>_ w1.
               Inr (ok, add_log_entry (Log_valve_on valve_number) w1))
           else
             bind_outcome (gpio_write valve_pin 0 w) (\<lambda>_ w1.
               Inr (ok, add_log_entry (Log_valve_off valve_number) w1)))"

definition control_valve :: "SystemConfig \<Rightarrow> int \<Rightarrow> string \<Rightarrow> world \<Rightarrow> reply outcome" where
  "control_valve cfg valve_number action w =
     (if \<not> gpio_initialized w
      then Inr (\<lparr>success = False, message = ''GPIO not available''\<rparr>, w)
      else
        case control_valve_try cfg valve_number action w of
          Inr rw \<Rightarrow> Inr rw
        | Inl (e, w') \<Rightarrow>
            Inr (\<lparr>success = False, message = str_of_exn e\<rparr>,
                 add_log_entry (Log_valve_error valve_number (str_of_exn e)) w'))"

text \<open>
  \<open>_initialize_gpio\<close>: \<open>driver\<close> is what opening the chip and claiming the four lines
  did, \<open>None\<close> when it went through (every line is claimed as an output at level 0)
  and the text of the exception otherwise.
\<close>

definition initialize_gpio :: "SystemConfig \<Rightarrow> string option \<Rightarrow> world \<Rightarrow> world" where
  "initialize_gpio cfg driver w =
     (case driver of
        None \<Rightarrow>
          add_log_entry (Log_gpio_initialized (PUMP_RELAY_PIN cfg) (PUMP_RELAY_PIN_2 cfg))
            (update_status (\<lambda>s. s\<lparr>gpio_ready := True\<rparr>)
              (w\<lparr>gpio_initialized := True,
                 level := (level w)(PUMP_RELAY_PIN cfg := 0, PUMP_RELAY_PIN_2 cfg := 0,
                                    SOLENOID_VALVE_PIN_1 cfg := 0, SOLENOID_VALVE_PIN_2 cfg := 0)\<rparr>))
      | Some err \<Rightarrow>
          add_log_entry (Log_gpio_init_failed err)
            (update_status (\<lambda>s. s\<lparr>gpio_ready := False\<rparr>) (w\<lparr>gpio_initialized := False\<rparr>)))"

text \<open>A channel is off when its pump line and its valve line are both at level 0.\<close>

definition channel_off :: "SystemConfig \<Rightarrow> int \<Rightarrow> world \<Rightarrow> bool" where
  "channel_off cfg n w =
     (if n = 1 then level w (PUMP_RELAY_PIN cfg) = 0 \<and> level w (SOLENOID_VALVE_PIN_1 cfg) = 0
      else level w (PUMP_RELAY_PIN_2 cfg) = 0 \<and> level w (SOLENOID_VALVE_PIN_2 cfg) = 0)"

text \<open>
  The events of switching a channel on and of switching it off: the two lines of the
  channel in the order of \<open>control_pump\<close>, 100 ms apart.
\<close>

definition on_events :: "SystemConfig \<Rightarrow> int \<Rightarrow> event list" where
  "on_events cfg n =
     (if n = 1
      then [GpioWrite (SOLENOID_VALVE_PIN_1 cfg) 1, Sleep 100, GpioWrite (PUMP_RELAY_PIN cfg) 1]
      else [GpioWrite (SOLENOID_VALVE_PIN_2 cfg) 1, Sleep 100, GpioWrite (PUMP_RELAY_PIN_2 cfg) 1])"

definition off_events :: "SystemConfig \<Rightarrow> int \<Rightarrow> event list" where
  "off_events cfg n =
     (if n = 1
      then [GpioWrite (PUMP_RELAY_PIN cfg) 0, Sleep 100, GpioWrite (SOLENOID_VALVE_PIN_1 cfg) 0]
      else [GpioWrite (PUMP_RELAY_PIN_2 cfg) 0, Sleep 100, GpioWrite (SOLENOID_VALVE_PIN_2 cfg) 0])"

text \<open>\<open>first_stop stop k\<close>: poll \<open>k\<close> is the first that finds the stop event set.\<close>

definition first_stop :: "(nat \<Rightarrow> bool) \<Rightarrow> nat \<Rightarrow> bool" where
  "first_stop stop k = (stop k \<and> \<not> list_ex stop [0..<k])"

definition world_of :: "'a outcome \<Rightarrow> world" where
  "world_of m = (case m of Inl (e, w) \<Rightarrow> w | Inr (x, w) \<Rightarrow> w)"

text \<open>Whether a call returned a dictionary with \<open>success\<close> true.\<close>

definition succeeded :: "reply outcome \<Rightarrow> bool" where
  "succeeded m = (case m of Inl (e, w) \<Rightarrow> False | Inr (r, w) \<Rightarrow> success r)"

text \<open>
  The hardware works: the driver was initialised and accepts a write on each of the
  four lines.
\<close>

definition working :: "SystemConfig \<Rightarrow> world \<Rightarrow> bool" where
  "working cfg w =
     (gpio_initialized w
      \<and> fault w (PUMP_RELAY_PIN cfg) = None \<and> fault w (PUMP_RELAY_PIN_2 cfg) = None
      \<and> fault w (SOLENOID_VALVE_PIN_1 cfg) = None \<and> fault w (SOLENOID_VALVE_PIN_2 cfg) = None)"

section \<open>The actuation sequence (SnoreDetectionSystem._execute_snoring_response)\<close>

text \<open>
  The task polls \<open>_auto_detection_stop_event.is_set()\<close> once before each second of
  sleep. Other threads set and clear the event while the task sleeps, so what a poll
  returns is an input of the model: \<open>stop k\<close> is the answer to the poll number \<open>k\<close> of
  the task, counted from 0.

  \<open>hold_loop stop k n w\<close> is \<open>for i in range(n)\<close> of step 1 and step 3, started at poll
  \<open>k\<close>: it returns \<open>True\<close> when a poll found the event set (the loop body then runs the
  branch that ends in \<open>return\<close>) and \<open>False\<close> when the range ran out.
\<close>

fun hold_loop :: "(nat \<Rightarrow> bool) \<Rightarrow> nat \<Rightarrow> nat \<Rightarrow> world \<Rightarrow> bool \<times> world" where
  "hold_loop stop k 0 w = (False, w)"
| "hold_loop stop k (Suc n) w =
     (if stop k then (True, w) else hold_loop stop (Suc k) n (sleep 1000 w))"

text \<open>
  The waiting loop of step 2, \<open>for i in range(WAIT_BETWEEN_PUMPS)\<close>: \<open>i\<close> is the loop
  variable and \<open>n\<close> the number of iterations left.
\<close>

fun wait_loop :: "SystemConfig \<Rightarrow> (nat \<Rightarrow> bool) \<Rightarrow> nat \<Rightarrow> nat \<Rightarrow> nat \<Rightarrow> world \<Rightarrow> bool \<times> world" where
  "wait_loop cfg stop k i 0 w = (False, w)"
| "wait_loop cfg stop k i (Suc n) w =
     (if stop k then (True, w)
      else
        let w1 = sleep 1000 w;
            w2 = (if (i + 1) mod 60 = 0
                  then add_log_entry
                         (Log_waiting_remaining ((WAIT_BETWEEN_PUMPS cfg - i - 1) div 60)) w1
                  else w1)
        in wait_loop cfg stop (Suc k) (Suc i) n w2)"

text \<open>Step 3, from the log line before \<open>control_pump(2, "ON")\<close> to the end of the \<open>try\<close> block.\<close>

definition snoring_response_step3 :: "SystemConfig \<Rightarrow> (nat \<Rightarrow> bool) \<Rightarrow> world \<Rightarrow> unit outcome" where
  "snoring_response_step3 cfg stop w =
     bind_outcome
       (control_pump cfg 2 ''ON'' (add_log_entry (Log_step3_activating (PUMP2_DURATION cfg)) w))
       (\<lambda>pump2_result w1.
          if success pump2_result
          then
            (case hold_loop stop (PUMP1_DURATION cfg + WAIT_BETWEEN_PUMPS cfg)
                    (PUMP2_DURATION cfg) w1 of
               (True, w2) \<Rightarrow>
                 bind_outcome (control_pump cfg 2 ''OFF'' (add_log_entry Log_interrupted_pump2 w2))
                   (\<lambda>_ w3. Inr ((), w3))
             | (False, w2) \<Rightarrow>
                 bind_outcome (control_pump cfg 2 ''OFF'' w2)
                   (\<lambda>_ w3. Inr ((), add_log_entry Log_response_completed
                                       (add_log_entry Log_step3_completed w3))))
          else
            Inr ((), add_log_entry Log_response_completed
                       (add_log_entry (Log_step3_failed (message pump2_result)) w1)))"

text \<open>Step 2, the wait between the pumps, followed by step 3.\<close>

definition snoring_response_step2 :: "SystemConfig \<Rightarrow> (nat \<Rightarrow> bool) \<Rightarrow> world \<Rightarrow> unit outcome" where
  "snoring_response_step2 cfg stop w =
     (case wait_loop cfg stop (PUMP1_DURATION cfg) 0 (WAIT_BETWEEN_PUMPS cfg)
             (add_log_entry (Log_step2_waiting (WAIT_BETWEEN_PUMPS cfg)) w) of
        (True, w1) \<Rightarrow> Inr ((), add_log_entry Log_interrupted_waiting w1)
      | (False, w1) \<Rightarrow> snoring_response_step3 cfg stop w1)"

text \<open>
  The \<open>try\<close> block after its first statement: from the first log line to the end of
  step 3.
\<close>

definition snoring_response_steps :: "SystemConfig \<Rightarrow> (nat \<Rightarrow> bool) \<Rightarrow> world \<Rightarrow> unit outcome" where
  "snoring_response_steps cfg stop w =
     bind_outcome
       (control_pump cfg 1 ''ON''
          (add_log_entry (Log_step1_activating (PUMP1_DURATION cfg))
            (add_log_entry Log_response_starting w)))
       (\<lambda>pump1_result w1.
          if success pump1_result
          then
            (case hold_loop stop 0 (PUMP1_DURATION cfg) w1 of
               (True, w2) \<Rightarrow>
                 bind_outcome (control_pump cfg 1 ''OFF'' (add_log_entry Log_interrupted_pump1 w2))
                   (\<lambda>_ w3. Inr ((), w3))
             | (False, w2) \<Rightarrow>
                 bind_outcome (control_pump cfg 1 ''OFF'' w2)
                   (\<lambda>_ w3. snoring_response_step2 cfg stop (add_log_entry Log_step1_completed w3)))
          else Inr ((), add_log_entry (Log_step1_failed (message pump1_result)) w1))"

text \<open>
  The \<open>except\<close> clause, entered with the exception and the state in which it was raised:
  it logs the failure and switches pump 1 and then pump 2 off, swallowing what that
  raises.
\<close>

definition snoring_response_except :: "SystemConfig \<Rightarrow> exn \<Rightarrow> world \<Rightarrow> world" where
  "snoring_response_except cfg e w =
     world_of
       (bind_outcome
          (control_pump cfg 1 ''OFF'' (add_log_entry (Log_response_failed (str_of_exn e)) w))
          (\<lambda>_ w2. control_pump cfg 2 ''OFF'' w2))"

text \<open>
  What follows the \<open>try\<close> block when it has ended with the outcome \<open>m\<close>: nothing when it
  returned or ran to its end, the \<open>except\<close> clause when it raised.
\<close>

definition snoring_response_handle :: "SystemConfig \<Rightarrow> unit outcome \<Rightarrow> world" where
  "snoring_response_handle cfg m =
     (case m of
        Inr (u, w1) \<Rightarrow> w1
      | Inl (e, w1) \<Rightarrow> snoring_response_except cfg e w1)"

text \<open>The \<open>finally\<close> clause.\<close>

definition snoring_response_finally :: "world \<Rightarrow> world" where
  "snoring_response_finally w = update_status (\<lambda>s. s\<lparr>snoring_response_active := False\<rparr>) w"

text \<open>The steps with the \<open>except\<close> clause: the task between setting the flag and clearing it.\<close>

definition snoring_response_rest :: "SystemConfig \<Rightarrow> (nat \<Rightarrow> bool) \<Rightarrow> world \<Rightarrow> world" where
  "snoring_response_rest cfg stop w =
     snoring_response_handle cfg (snoring_response_steps cfg stop w)"

text \<open>
  \<open>_execute_snoring_response\<close>: the flag is set by the first statement of the \<open>try\<close>
  block and cleared by the \<open>finally\<close> clause.
\<close>

definition execute_snoring_response :: "SystemConfig \<Rightarrow> (nat \<Rightarrow> bool) \<Rightarrow> world \<Rightarrow> world" where
  "execute_snoring_response cfg stop w =
     snoring_response_finally
       (snoring_response_rest cfg stop
          (update_status (\<lambda>s. s\<lparr>snoring_response_active := True\<rparr>) w))"

section \<open>One detection cycle (SnoreDetectionSystem.record_and_predict)\<close>

text \<open>
  What one cycle gets from outside the modelled code: what the capture of the clip did
  (the text of the failure, or the path of the file written), whether that file exists
  and its size, what \<open>ModelHandler.predict\<close> returned (\<open>None\<close> when it failed), the clock,
  and the files that \<open>cleanup_old_files\<close> removed.
\<close>

record cycle_input =
  capture :: "string + string"
  file_exists :: bool
  file_size :: nat
  predicted :: "prediction option"
  clock :: string
  removed :: "string list"

definition basename :: "string \<Rightarrow> string" where
  "basename path = rev (takeWhile (\<lambda>c. c \<noteq> CHR ''/'') (rev path))"

text \<open>
  \<open>AudioProcessor.record_audio\<close>: the recording flag is set for the length of the call
  and cleared by the \<open>finally\<close> clause; a failure is logged and raised again as
  \<open>AudioProcessingError\<close>, whose text starts with the three bytes of the cross mark.
\<close>

definition record_audio :: "string + string \<Rightarrow> world \<Rightarrow> string outcome" where
  "record_audio captured w =
     (let w1 = add_log_entry Log_recording (update_status (\<lambda>s. s\<lparr>is_recording := True\<rparr>) w)
      in case captured of
           Inr filepath \<Rightarrow>
             Inr (filepath,
                  update_status (\<lambda>s. s\<lparr>is_recording := False\<rparr>)
                    (add_log_entry (Log_audio_saved (basename filepath)) w1))
         | Inl err \<Rightarrow>
             Inl (AudioProcessingError
                    ([CHR 0xE2, CHR 0x9D, CHR 0x8C] @ '' Recording failed: '' @ err),
                  update_status (\<lambda>s. s\<lparr>is_recording := False\<rparr>)
                    (add_log_entry (Log_recording_failed err) w1)))"

definition cleanup_old_files :: "string list \<Rightarrow> world \<Rightarrow> world" where
  "cleanup_old_files files w = fold (\<lambda>f. add_log_entry (Log_cleaned_up (basename f))) files w"

text \<open>
  The labels that count as snoring; the first is the Thai word of the source, as the
  nine bytes of its UTF-8 encoding.
\<close>

definition snoring_labels :: "string list" where
  "snoring_labels =
     [[CHR 0xE0, CHR 0xB8, CHR 0x81, CHR 0xE0, CHR 0xB8, CHR 0xA3, CHR 0xE0, CHR 0xB8, CHR 0x99],
      ''snoring'', ''Snoring'', ''SNORING'']"

text \<open>\<open>Thread(target=..., daemon=True).start()\<close>: the new thread is entered in \<open>started\<close>.\<close>

definition start_thread :: "task \<Rightarrow> world \<Rightarrow> world" where
  "start_thread t w = w\<lparr>started := started w @ [t]\<rparr>"

text \<open>
  The branch taken for a snoring label above the threshold, in its two parts: reading
  the flag from a snapshot of the status (\<open>get_status\<close> holds the store's lock only for
  the copy), and acting on what was read.
\<close>

definition read_already_active :: "world \<Rightarrow> bool \<times> world" where
  "read_already_active w =
     (let status = get_status w;
          already_active = snoring_response_active status
      in (already_active, add_log_entry (Log_debug_already_active already_active) w))"

definition skip_or_start :: "SystemConfig \<Rightarrow> prediction \<Rightarrow> bool \<Rightarrow> world \<Rightarrow> world" where
  "skip_or_start cfg res already_active w =
     (if already_active then add_log_entry Log_already_in_progress w
      else
        add_log_entry Log_thread_started
          (start_thread Snoring_response
            (add_log_entry
               (Log_triggering (class_name res) (confidence res) (CONFIDENCE_THRESHOLD cfg * 100))
               w)))"

definition record_and_predict_try ::
  "SystemConfig \<Rightarrow> cycle_input \<Rightarrow> world \<Rightarrow> (prediction option) outcome" where
  "record_and_predict_try cfg inp w =
     bind_outcome (record_audio (capture inp) w) (\<lambda>audio_path w1.
       if audio_path = [] then Inr (None, add_log_entry Log_failed_to_record w1)
       else if \<not> file_exists inp
       then Inr (None, add_log_entry (Log_file_not_created audio_path) w1)
       else
         let w2 = add_log_entry (Log_file_created (basename audio_path) (file_size inp)) w1
         in case predicted inp of
              None \<Rightarrow> Inr (None, add_log_entry Log_prediction_failed w2)
            | Some res \<Rightarrow>
                let w3 = add_log_entry
                           (Log_prediction (class_name res) (confidence res) (model_type res)) w2;
                    threshold_check = (confidence res > CONFIDENCE_THRESHOLD cfg * 100);
                    w4 = add_log_entry
                           (Log_debug_threshold (confidence res) (CONFIDENCE_THRESHOLD cfg * 100)
                              threshold_check) w3;
                    history_entry =
                      \<lparr>timestamp = clock inp, result = res, audio_file = basename audio_path\<rparr>;
                    w5 = w4\<lparr>data_store := add_detection_record (data_store w4) history_entry\<rparr>;
                    is_snoring = (class_name res \<in> set snoring_labels);
                    confidence_above_threshold =
                      (confidence res > CONFIDENCE_THRESHOLD cfg * 100);
                    w6 = add_log_entry
                           (Log_debug_class (class_name res) is_snoring confidence_above_threshold)
                           w5;
                    w7 =
                      (if is_snoring \<and> confidence_above_threshold
                       then
                         (case read_already_active w6 of
                            (already_active, w') \<Rightarrow> skip_or_start cfg res already_active w')
                       else if is_snoring
                       then add_log_entry
                              (Log_confidence_too_low (class_name res) (confidence res)
                                 (CONFIDENCE_THRESHOLD cfg * 100)) w6
                       else add_log_entry (Log_no_snoring (class_name res)) w6)
                in Inr (Some res, cleanup_old_files (removed inp) w7))"

text \<open>\<open>record_and_predict\<close>: the \<open>try\<close> block and the \<open>except\<close> clause, which returns \<open>None\<close>.\<close>

definition record_and_predict ::
  "SystemConfig \<Rightarrow> cycle_input \<Rightarrow> world \<Rightarrow> prediction option \<times> world" where
  "record_and_predict cfg inp w =
     (case record_and_predict_try cfg inp w of
        Inr rw \<Rightarrow> rw
      | Inl (e, w') \<Rightarrow>
          (None, add_log_entry (Log_record_and_predict_failed (str_of_exn e)) w'))"

text \<open>
  The classification a cycle gets as far as: none when the capture failed or returned
  no path, when the file is not there, or when \<open>predict\<close> returned \<open>None\<close>.
\<close>

definition classified :: "cycle_input \<Rightarrow> prediction option" where
  "classified inp =
     (case capture inp of
        Inl err \<Rightarrow> None
      | Inr audio_path \<Rightarrow>
          if audio_path = [] \<or> \<not> file_exists inp then None else predicted inp)"

section \<open>The supervisory loop's switches and the delay\<close>

definition start_auto_detection :: "world \<Rightarrow> reply \<times> world" where
  "start_auto_detection w =
     (if auto_detection_thread w \<noteq> No_thread \<and> is_alive (auto_detection_thread w)
      then (\<lparr>success = False, message = ''Auto detection already running''\<rparr>, w)
      else
        let w1 = update_status (\<lambda>s. s\<lparr>auto_detect_enabled := True\<rparr>) w;
            w2 = w1\<lparr>stop_event := False\<rparr>;
            w3 = start_thread Auto_detection_loop (w2\<lparr>auto_detection_thread := Thread True\<rparr>)
        in (\<lparr>success = True, message = ''Auto detection started''\<rparr>,
            add_log_entry Log_auto_started w3))"

text \<open>
  \<open>stop_auto_detection\<close>. \<open>join(timeout=5)\<close> waits for at most five seconds;
  \<open>exits_in_time\<close> says whether the loop thread ended within them.
\<close>

definition stop_auto_detection :: "bool \<Rightarrow> world \<Rightarrow> reply \<times> world" where
  "stop_auto_detection exits_in_time w =
     (let w1 = update_status (\<lambda>s. s\<lparr>auto_detect_enabled := False\<rparr>) w;
          w2 = w1\<lparr>stop_event := True\<rparr>;
          w3 = (if auto_detection_thread w2 \<noteq> No_thread \<and> is_alive (auto_detection_thread w2)
                then w2\<lparr>trace := trace w2 @ [Join 5000],
                        auto_detection_thread := Thread (\<not> exits_in_time)\<rparr>
                else w2)
      in (\<lparr>success = True, message = ''Auto detection stopped''\<rparr>,
          add_log_entry Log_auto_stopped w3))"

definition set_detection_delay :: "int \<Rightarrow> world \<Rightarrow> reply \<times> world" where
  "set_detection_delay delay_minutes w =
     (if \<not> (1 \<le> delay_minutes \<and> delay_minutes \<le> 60)
      then (\<lparr>success = False, message = ''Delay must be between 1 and 60 minutes''\<rparr>, w)
      else
        (\<lparr>success = True,
          message = ''Detection delay set to '' @ str_of_int delay_minutes @ '' minutes''\<rparr>,
         add_log_entry (Log_delay_set delay_minutes)
           (update_status (\<lambda>s. s\<lparr>detection_delay := delay_minutes\<rparr>) w)))"

section \<open>The model's kind (ModelHandler._detect_model_type)\<close>

text \<open>
  \<open>model.input_shape\<close> is a tuple whose entries are integers or \<open>None\<close> (the batch
  size); reading it may raise, which the function catches. The argument is \<open>Inl\<close> of the
  exception's text when the read raised and \<open>Inr\<close> of the tuple otherwise.
\<close>

definition detect_model_type :: "string + int option list \<Rightarrow> string" where
  "detect_model_type shape =
     (case shape of
        Inl err \<Rightarrow> ''legacy''
      | Inr input_shape \<Rightarrow>
          if length input_shape = 2
          then (if input_shape ! 1 = Some 40 then ''legacy'' else ''unknown'')
          else if length input_shape = 3 then ''improved''
          else ''legacy'')"

section \<open>Detections and sequences running side by side\<close>

text \<open>
  \<open>record_and_predict\<close> runs on the loop thread and on the threads that the request
  handler starts, and each sequence runs on a thread of its own. The store's lock makes
  one \<open>get_status\<close> or \<open>update_status\<close> atomic and nothing more, so a thread is
  modelled by the points between those calls:
  \<^item> \<open>Det_check\<close>: a detection that has found a snoring label above the threshold, before
    \<open>get_status\<close>;
  \<^item> \<open>Det_decide a\<close>: the same, with \<open>already_active = a\<close> read, before the \<open>if\<close>;
  \<^item> \<open>Det_done\<close>: past the branch;
  \<^item> \<open>Seq_start\<close>: a sequence thread that has been started, before its first statement
    \<open>update_status(snoring_response_active=True)\<close>;
  \<^item> \<open>Seq_body\<close>: inside the \<open>try\<close> block after that statement;
  \<^item> \<open>Seq_finally\<close>: before the \<open>finally\<close> clause;
  \<^item> \<open>Seq_exit\<close>: ended.
\<close>

datatype pc = Det_check | Det_decide bool | Det_done | Seq_start | Seq_body | Seq_finally | Seq_exit

record system =
  shared :: world
  threads :: "pc list"

text \<open>
  One step of thread \<open>i\<close>. The detection being handled is \<open>res\<close> and the polls of every
  sequence are answered by \<open>stop\<close>. A step of an ended thread, or of a thread that does
  not exist, changes nothing.
\<close>

definition thread_step ::
  "SystemConfig \<Rightarrow> prediction \<Rightarrow> (nat \<Rightarrow> bool) \<Rightarrow> nat \<Rightarrow> system \<Rightarrow> system" where
  "thread_step cfg res stop i st =
     (if i \<ge> length (threads st) then st
      else
        case threads st ! i of
          Det_check \<Rightarrow>
            (case read_already_active (shared st) of
               (a, w) \<Rightarrow> st\<lparr>shared := w, threads := (threads st)[i := Det_decide a]\<rparr>)
        | Det_decide a \<Rightarrow>
            st\<lparr>shared := skip_or_start cfg res a (shared st),
               threads := (threads st)[i := Det_done] @ (if a then [] else [Seq_start])\<rparr>
        | Det_done \<Rightarrow> st
        | Seq_start \<Rightarrow>
            st\<lparr>shared := update_status (\<lambda>s. s\<lparr>snoring_response_active := True\<rparr>) (shared st),
               threads := (threads st)[i := Seq_body]\<rparr>
        | Seq_body \<Rightarrow>
            st\<lparr>shared := snoring_response_rest cfg stop (shared st),
               threads := (threads st)[i := Seq_finally]\<rparr>
        | Seq_finally \<Rightarrow>
            st\<lparr>shared := update_status (\<lambda>s. s\<lparr>snoring_response_active := False\<rparr>) (shared st),
               threads := (threads st)[i := Seq_exit]\<rparr>
        | Seq_exit \<Rightarrow> st)"

text \<open>A schedule is the list of the threads that step, in order.\<close>

fun run_schedule ::
  "SystemConfig \<Rightarrow> prediction \<Rightarrow> (nat \<Rightarrow> bool) \<Rightarrow> nat list \<Rightarrow> system \<Rightarrow> system" where
  "run_schedule cfg res stop [] st = st"
| "run_schedule cfg res stop (i # sched) st =
     run_schedule cfg res stop sched (thread_step cfg res stop i st)"

text \<open>The sequences that have marked the flag and have not reached their \<open>finally\<close> clause.\<close>

definition active_sequences :: "system \<Rightarrow> nat" where
  "active_sequences st = length (filter (\<lambda>p. p = Seq_body) (threads st))"

section \<open>Sample inputs\<close>

definition sample_entry :: "nat \<Rightarrow> history_entry" where
  "sample_entry n =
     \<lparr>timestamp = ''2024-01-01 00:00:00'',
      result = \<lparr>class_id = 1, class_name = ''snoring'', confidence = 90, model_type = ''legacy''\<rparr>,
      audio_file = ''recording_'' @ str_of_nat n @ ''.wav''\<rparr>"


text \<open>The state after construction with a working driver.\<close>

definition ready_world :: world where
  "ready_world = initialize_gpio default_config None initial_world"

text \<open>The state after construction when the driver could not be opened.\<close>

definition degraded_world :: world where
  "degraded_world = initialize_gpio default_config (Some ''GPIO chip not found'') initial_world"

text \<open>A state in which the loop thread is alive.\<close>

definition looping_world :: world where
  "looping_world = snd (start_auto_detection ready_world)"

text \<open>A state in which an actuation sequence has marked the flag.\<close>

definition busy_world :: world where
  "busy_world = update_status (\<lambda>s. s\<lparr>snoring_response_active := True\<rparr>) ready_world"



text \<open>A cycle whose clip is classified with the given label and confidence.\<close>

definition cycle_with :: "string \<Rightarrow> real \<Rightarrow> cycle_input" where
  "cycle_with label conf =
     \<lparr> capture = Inr ''static/recording_20240101_000000.wav'', file_exists = True,
       file_size = 480044,
       predicted = Some \<lparr>class_id = (if label = ''snoring'' then 1 else 0), class_name = label,
                          confidence = conf, model_type = ''legacy''\<rparr>,
       clock = ''2024-01-01 00:00:05'', removed = [] \<rparr>"

text \<open>Two detections of snoring at 90 percent, each about to look at the flag.\<close>

definition two_detections :: system where
  "two_detections = \<lparr> shared = ready_world, threads = [Det_check, Det_check] \<rparr>"

definition snoring_90 :: prediction where
  "snoring_90 =
     \<lparr>class_id = 1, class_name = ''snoring'', confidence = 90, model_type = ''legacy''\<rparr>"

section \<open>Facts about strings\<close>

lemma str_upper_ON: "str_upper ''ON'' = ''ON''"
  by code_simp

lemma str_upper_OFF: "str_upper ''OFF'' \<noteq> ''ON''"
  by (simp add: str_upper_def)

section \<open>The detection history is a bounded queue\<close>

lemma pop_first_drop: "pop_first xs = drop (Suc 0) xs"
  by (cases xs) simp_all

lemma drop_append_short: "k \<le> length xs \<Longrightarrow> drop k xs @ ys = drop k (xs @ ys)"
  by simp

lemma add_detection_record_drop:
  "length (detection_history ds) \<le> MAX_DETECTION_HISTORY \<Longrightarrow>
   detection_history (add_detection_record ds r)
     = drop (Suc (length (detection_history ds)) - MAX_DETECTION_HISTORY)
         (detection_history ds @ [r])"
proof (cases "length (detection_history ds) < MAX_DETECTION_HISTORY")
  case True
  then show ?thesis
    by (simp add: add_detection_record_def Let_def)
next
  case False
  assume "length (detection_history ds) \<le> MAX_DETECTION_HISTORY"
  with False have len: "length (detection_history ds) = MAX_DETECTION_HISTORY" by simp
  then have d: "Suc (length (detection_history ds)) - MAX_DETECTION_HISTORY = Suc 0" by simp
  show ?thesis
    unfolding d using len by (simp add: add_detection_record_def Let_def pop_first_drop)
qed

lemma add_detection_record_length:
  "length (detection_history ds) \<le> MAX_DETECTION_HISTORY \<Longrightarrow>
   length (detection_history (add_detection_record ds r)) \<le> MAX_DETECTION_HISTORY"
  by (simp add: add_detection_record_drop)

lemma add_detection_records_drop:
  "length (detection_history ds) \<le> MAX_DETECTION_HISTORY \<Longrightarrow>
   detection_history (add_detection_records ds rs)
     = drop (length (detection_history ds) + length rs - MAX_DETECTION_HISTORY)
         (detection_history ds @ rs)"
proof (induction rs arbitrary: ds)
  case Nil
  then show ?case by simp
next
  case (Cons r rs)
  let ?h = "detection_history ds"
  let ?k = "Suc (length ?h) - MAX_DETECTION_HISTORY"
  let ?ds = "add_detection_record ds r"
  have bound: "length (detection_history ?ds) \<le> MAX_DETECTION_HISTORY"
    using Cons.prems by (rule add_detection_record_length)
  have shape: "detection_history ?ds = drop ?k (?h @ [r])"
    using Cons.prems by (rule add_detection_record_drop)
  have klen: "?k \<le> length (?h @ [r])" by simp
  have app: "detection_history ?ds @ rs = drop ?k (?h @ r # rs)"
    unfolding shape using drop_append_short [OF klen, of rs] by simp
  have len: "length (detection_history ?ds) = Suc (length ?h) - ?k"
    by (simp add: shape)
  have "detection_history (add_detection_records ds (r # rs))
          = drop (length (detection_history ?ds) + length rs - MAX_DETECTION_HISTORY)
              (detection_history ?ds @ rs)"
    using Cons.IH [OF bound] by simp
  also have "\<dots> = drop (length (detection_history ?ds) + length rs - MAX_DETECTION_HISTORY + ?k)
                     (?h @ r # rs)"
    unfolding app by (simp only: drop_drop)
  also have "length (detection_history ?ds) + length rs - MAX_DETECTION_HISTORY + ?k
               = length ?h + length (r # rs) - MAX_DETECTION_HISTORY"
    using Cons.prems unfolding len by simp
  finally show ?case .
qed

text \<open>
  Claim C8. The detection history is a first-in first-out buffer of capacity 50. On a
  history within the capacity, \<open>add_detection_record\<close> appends the new record at the
  end and, when that makes 51, removes the oldest record and no other; the length stays
  within 50 after one call and after any run of calls; and 51 records appended to the
  empty history leave 50, all but the first in their order.
\<close>

theorem detection_history_bounded_fifo:
  assumes "length (detection_history ds) \<le> 50"
  shows "detection_history (add_detection_record ds r)
           = (if length (detection_history ds) < 50 then detection_history ds @ [r]
              else tl (detection_history ds) @ [r])
         \<and> length (detection_history (add_detection_record ds r)) \<le> 50
         \<and> length (detection_history (add_detection_records ds rs)) \<le> 50
         \<and> (detection_history ds = [] \<and> length rs = 51 \<longrightarrow>
              detection_history (add_detection_records ds rs) = tl rs
              \<and> length (detection_history (add_detection_records ds rs)) = 50)"
proof -
  from assms have le: "length (detection_history ds) \<le> MAX_DETECTION_HISTORY"
    by (simp add: MAX_DETECTION_HISTORY_def)
  have one: "detection_history (add_detection_record ds r)
           = (if length (detection_history ds) < 50 then detection_history ds @ [r]
              else tl (detection_history ds) @ [r])"
    using assms
    by (cases "detection_history ds")
       (simp_all add: add_detection_record_def Let_def MAX_DETECTION_HISTORY_def)
  have two: "length (detection_history (add_detection_record ds r)) \<le> 50"
    using add_detection_record_length [OF le, of r] by (simp add: MAX_DETECTION_HISTORY_def)
  have run: "detection_history (add_detection_records ds rs)
     = drop (length (detection_history ds) + length rs - 50) (detection_history ds @ rs)"
    using add_detection_records_drop [OF le, of rs] by (simp add: MAX_DETECTION_HISTORY_def)
  have three: "length (detection_history (add_detection_records ds rs)) \<le> 50"
    unfolding run by simp
  have four: "detection_history (add_detection_records ds rs) = tl rs
              \<and> length (detection_history (add_detection_records ds rs)) = 50"
    if "detection_history ds = [] \<and> length rs = 51"
  proof -
    from that have "detection_history (add_detection_records ds rs) = drop (Suc 0) rs"
      unfolding run by simp
    then show ?thesis using that by (simp add: drop_Suc)
  qed
  from one two three four show ?thesis by blast
qed

text \<open>The theorem at the empty history of a new store and 51 sample records.\<close>

theorem detection_history_bounded_fifo_witness:
  "length (detection_history initial_store) \<le> 50
   \<and> detection_history initial_store = []
   \<and> length (map sample_entry [0..<51]) = 51
   \<and> detection_history (add_detection_records initial_store (map sample_entry [0..<51]))
       = map sample_entry [1..<51]
   \<and> length (detection_history (add_detection_records initial_store (map sample_entry [0..<51])))
       = 50"
proof -
  have h: "length (detection_history initial_store) \<le> 50"
    by (simp add: initial_store_def)
  have t: "tl (map sample_entry [0..<51]) = map sample_entry [1..<51]"
    by (simp add: map_tl [symmetric] del: map_tl)
  from detection_history_bounded_fifo [OF h, of "sample_entry 0" "map sample_entry [0..<51]"]
  show ?thesis
    using t by (simp add: initial_store_def)
qed

section \<open>The detection delay\<close>

text \<open>
  Claim C7. \<open>set_detection_delay\<close> accepts the integers from 1 to 60 and no other. For
  a delay outside the range it returns a failure and leaves the whole state, the stored
  delay and every other status field included, as it was: the value is not clamped. For
  a delay in the range it returns success and stores that value, changing no other
  status field.
\<close>

theorem set_detection_delay_range:
  "(\<not> (1 \<le> d \<and> d \<le> 60) \<longrightarrow>
      \<not> success (fst (set_detection_delay d w)) \<and> snd (set_detection_delay d w) = w)
   \<and> (1 \<le> d \<and> d \<le> 60 \<longrightarrow>
      success (fst (set_detection_delay d w))
      \<and> get_status (snd (set_detection_delay d w)) = (get_status w)\<lparr>detection_delay := d\<rparr>
      \<and> detection_delay (get_status (snd (set_detection_delay d w))) = d)"
  by (simp add: set_detection_delay_def get_status_def update_status_def add_log_entry_def
        store_add_log_entry_def Let_def)

text \<open>The theorem at the delays 0, 61, 1 and 60.\<close>

theorem set_detection_delay_range_witness:
  "\<not> success (fst (set_detection_delay 0 ready_world))
   \<and> snd (set_detection_delay 0 ready_world) = ready_world
   \<and> \<not> success (fst (set_detection_delay 61 ready_world))
   \<and> snd (set_detection_delay 61 ready_world) = ready_world
   \<and> success (fst (set_detection_delay 1 ready_world))
   \<and> detection_delay (get_status (snd (set_detection_delay 1 ready_world))) = 1
   \<and> success (fst (set_detection_delay 60 ready_world))
   \<and> detection_delay (get_status (snd (set_detection_delay 60 ready_world))) = 60"
  using set_detection_delay_range [of 0 ready_world]
        set_detection_delay_range [of 61 ready_world]
        set_detection_delay_range [of 1 ready_world]
        set_detection_delay_range [of 60 ready_world]
  by simp

section \<open>The model's kind\<close>

text \<open>
  Claim C5, as stated, says that every shape other than (batch, 40) and the
  three-dimensional ones gives \<open>legacy\<close>. The shape (batch, 128) has two dimensions and
  gives \<open>unknown\<close>.
\<close>

theorem detect_model_type_unknown_counterexample:
  "detect_model_type (Inr [None, Some 128]) = ''unknown''
   \<and> detect_model_type (Inr [None, Some 128]) \<noteq> ''legacy''"
  by (simp add: detect_model_type_def)

text \<open>
  Claim C5, amended. \<open>_detect_model_type\<close> returns \<open>legacy\<close> for the shape (batch, 40),
  \<open>improved\<close> for a shape of three dimensions, \<open>unknown\<close> for a shape of two dimensions
  whose second entry is not 40, and \<open>legacy\<close> for a shape of any other number of
  dimensions and when the shape cannot be read.
\<close>

theorem detect_model_type_cases:
  "detect_model_type (Inr [batch, Some 40]) = ''legacy''
   \<and> detect_model_type (Inr [batch, timesteps, bands]) = ''improved''
   \<and> (features \<noteq> Some 40 \<longrightarrow> detect_model_type (Inr [batch, features]) = ''unknown'')
   \<and> (length input_shape \<noteq> 2 \<and> length input_shape \<noteq> 3 \<longrightarrow>
        detect_model_type (Inr input_shape) = ''legacy'')
   \<and> detect_model_type (Inl err) = ''legacy''"
  by (simp add: detect_model_type_def)

text \<open>The theorem at the shapes (batch, 128), (batch, 128, 128, 3), (batch, 40) and (batch, 469, 128).\<close>

theorem detect_model_type_cases_witness:
  "Some (128 :: int) \<noteq> Some 40
   \<and> detect_model_type (Inr [None, Some 128]) = ''unknown''
   \<and> length [None, Some (128 :: int), Some 128, Some 3] \<noteq> 2
   \<and> length [None, Some (128 :: int), Some 128, Some 3] \<noteq> 3
   \<and> detect_model_type (Inr [None, Some 128, Some 128, Some 3]) = ''legacy''
   \<and> detect_model_type (Inr [None, Some 40]) = ''legacy''
   \<and> detect_model_type (Inr [None, Some 469, Some 128]) = ''improved''"
  using detect_model_type_cases [of None "Some 469" "Some 128" "Some 128" "[None, Some 128, Some 128, Some 3]"]
  by simp

section \<open>The GPIO controller\<close>

subsection \<open>What the store operations leave alone\<close>

lemma get_status_update_status: "get_status (update_status f w) = f (get_status w)"
  by (simp add: get_status_def update_status_def)

lemma get_status_add_log_entry: "get_status (add_log_entry m w) = get_status w"
  by (simp add: get_status_def add_log_entry_def store_add_log_entry_def Let_def)

lemma get_status_sleep: "get_status (sleep ms w) = get_status w"
  by (simp add: get_status_def sleep_def)

lemma hw_update_status:
  "level (update_status f w) = level w" "fault (update_status f w) = fault w"
  "trace (update_status f w) = trace w" "gpio_initialized (update_status f w) = gpio_initialized w"
  "started (update_status f w) = started w"
  by (simp_all add: update_status_def)

lemma hw_add_log_entry:
  "level (add_log_entry m w) = level w" "fault (add_log_entry m w) = fault w"
  "trace (add_log_entry m w) = trace w" "gpio_initialized (add_log_entry m w) = gpio_initialized w"
  "started (add_log_entry m w) = started w"
  by (simp_all add: add_log_entry_def)

lemma hw_sleep:
  "level (sleep ms w) = level w" "fault (sleep ms w) = fault w"
  "trace (sleep ms w) = trace w @ [Sleep ms]" "gpio_initialized (sleep ms w) = gpio_initialized w"
  "started (sleep ms w) = started w"
  by (simp_all add: sleep_def)

lemmas frame = get_status_update_status get_status_add_log_entry get_status_sleep
  hw_update_status hw_add_log_entry hw_sleep

lemma gpio_write_cases:
  "gpio_write pin v w = Inl (e, w') \<Longrightarrow>
     level w' = level w \<and> fault w' = fault w \<and> get_status w' = get_status w
     \<and> gpio_initialized w' = gpio_initialized w \<and> started w' = started w
     \<and> trace w' = trace w @ [GpioWriteFailed pin v] \<and> fault w pin \<noteq> None"
  "gpio_write pin v w = Inr (u, w') \<Longrightarrow>
     level w' = (level w)(pin := v) \<and> fault w' = fault w \<and> get_status w' = get_status w
     \<and> gpio_initialized w' = gpio_initialized w \<and> started w' = started w
     \<and> trace w' = trace w @ [GpioWrite pin v] \<and> fault w pin = None"
  by (auto simp: gpio_write_def get_status_def split: option.splits)

subsection \<open>control_pump\<close>

lemma control_pump_returns: "\<exists>r w'. control_pump cfg n a w = Inr (r, w')"
  by (auto simp: control_pump_def split: sum.splits)

lemma control_valve_returns: "\<exists>r w'. control_valve cfg n a w = Inr (r, w')"
  by (auto simp: control_valve_def split: sum.splits)

lemma control_pump_degraded:
  "\<not> gpio_initialized w \<Longrightarrow>
   control_pump cfg n a w = Inr (\<lparr>success = False, message = ''GPIO not available''\<rparr>, w)"
  by (simp add: control_pump_def)

lemma control_pump_invalid:
  "n \<noteq> 1 \<Longrightarrow> n \<noteq> 2 \<Longrightarrow> gpio_initialized w \<Longrightarrow>
   control_pump cfg n a w
     = Inr (\<lparr>success = False, message = ''Invalid pump number (must be 1 or 2)''\<rparr>, w)"
  by (simp add: control_pump_def control_pump_try_def)

lemma control_pump_status:
  assumes "control_pump cfg n a w = Inr (r, w')"
  shows "n = 1 \<and> success r \<longrightarrow> pump_status (get_status w') = (str_upper a = ''ON'')"
    and "n \<noteq> 1 \<or> \<not> success r \<longrightarrow> pump_status (get_status w') = pump_status (get_status w)"
  using assms
  by (auto simp: control_pump_def control_pump_try_def bind_outcome_def Let_def frame
           split: if_splits sum.splits prod.splits dest!: gpio_write_cases)

lemma control_valve_status:
  assumes "control_valve cfg n a w = Inr (r, w')"
  shows "pump_status (get_status w') = pump_status (get_status w)"
  using assms
  by (auto simp: control_valve_def control_valve_try_def bind_outcome_def Let_def frame
           split: if_splits sum.splits prod.splits dest!: gpio_write_cases)


lemma control_pump_trace:
  assumes "working cfg w" and "n = 1 \<or> n = 2"
  shows "succeeded (control_pump cfg n a w)"
    and "trace (world_of (control_pump cfg n a w))
         = trace w @
           (let pump_pin = (if n = 1 then PUMP_RELAY_PIN cfg else PUMP_RELAY_PIN_2 cfg);
                valve_pin = (if n = 1 then SOLENOID_VALVE_PIN_1 cfg else SOLENOID_VALVE_PIN_2 cfg)
            in if str_upper a = ''ON''
               then [GpioWrite valve_pin 1, Sleep 100, GpioWrite pump_pin 1]
               else [GpioWrite pump_pin 0, Sleep 100, GpioWrite valve_pin 0])"
  using assms
  by (auto simp: working_def control_pump_def control_pump_try_def bind_outcome_def Let_def
                 gpio_write_def sleep_def add_log_entry_def update_status_def succeeded_def
                 world_of_def)

lemma working_ready_world: "working default_config ready_world"
  by (simp add: working_def ready_world_def initialize_gpio_def initial_world_def
        add_log_entry_def update_status_def default_config_def)

lemma not_initialized_degraded_world: "\<not> gpio_initialized degraded_world"
  by (simp add: degraded_world_def initialize_gpio_def initial_world_def
        add_log_entry_def update_status_def)

lemma working_after_log_status:
  "working cfg (add_log_entry m w) = working cfg w"
  "working cfg (update_status f w) = working cfg w"
  "working cfg (sleep ms w) = working cfg w"
  by (simp_all add: working_def frame)

lemma control_pump_keeps_working:
  "working cfg w \<Longrightarrow> working cfg (world_of (control_pump cfg n a w))"
  by (auto simp: working_def control_pump_def control_pump_try_def bind_outcome_def Let_def
                 gpio_write_def sleep_def add_log_entry_def update_status_def world_of_def)

text \<open>
  Claim C3. For a call of \<open>control_pump\<close> on channel 1 or 2 with working hardware:
  when the action is ON (in any case of the letters) the valve line is written 1 first,
  then the program sleeps 100 ms, then the pump line is written 1; for any other
  action, OFF among them, the pump line is written 0 first, then the 100 ms, then the
  valve line is written 0. These are all the writes of the call and this is their order.
\<close>

theorem control_pump_write_order:
  assumes "working cfg w"
  shows "trace (world_of (control_pump cfg 1 a w))
           = trace w @
             (if str_upper a = ''ON''
              then [GpioWrite (SOLENOID_VALVE_PIN_1 cfg) 1, Sleep 100, GpioWrite (PUMP_RELAY_PIN cfg) 1]
              else [GpioWrite (PUMP_RELAY_PIN cfg) 0, Sleep 100, GpioWrite (SOLENOID_VALVE_PIN_1 cfg) 0])
         \<and> trace (world_of (control_pump cfg 2 a w))
           = trace w @
             (if str_upper a = ''ON''
              then [GpioWrite (SOLENOID_VALVE_PIN_2 cfg) 1, Sleep 100, GpioWrite (PUMP_RELAY_PIN_2 cfg) 1]
              else [GpioWrite (PUMP_RELAY_PIN_2 cfg) 0, Sleep 100, GpioWrite (SOLENOID_VALVE_PIN_2 cfg) 0])"
  using control_pump_trace(2) [OF assms, of 1 a] control_pump_trace(2) [OF assms, of 2 a]
  by (simp add: Let_def)

text \<open>The theorem at both channels and both actions, on the lines 17, 27, 23 and 24.\<close>

theorem control_pump_write_order_witness:
  "working default_config ready_world
   \<and> trace (world_of (control_pump default_config 1 ''ON'' ready_world))
       = [GpioWrite 23 1, Sleep 100, GpioWrite 17 1]
   \<and> trace (world_of (control_pump default_config 1 ''OFF'' ready_world))
       = [GpioWrite 17 0, Sleep 100, GpioWrite 23 0]
   \<and> trace (world_of (control_pump default_config 2 ''ON'' ready_world))
       = [GpioWrite 24 1, Sleep 100, GpioWrite 27 1]
   \<and> trace (world_of (control_pump default_config 2 ''OFF'' ready_world))
       = [GpioWrite 27 0, Sleep 100, GpioWrite 24 0]"
proof -
  have t: "trace ready_world = []"
    by (simp add: ready_world_def initialize_gpio_def initial_world_def
          add_log_entry_def update_status_def)
  show ?thesis
    using control_pump_write_order [OF working_ready_world, of "''ON''"]
          control_pump_write_order [OF working_ready_world, of "''OFF''"]
          working_ready_world t str_upper_ON str_upper_OFF
    by (simp add: default_config_def)
qed

text \<open>
  Claim C4. \<open>control_pump\<close> never raises: every call returns a result. For a channel
  other than 1 and 2 the result is a failure and the state, the hardware included, is
  as before the call. When the driver was not initialised every call returns the
  failure \<open>GPIO not available\<close> at once, the state untouched: no write, no sleep.
\<close>

theorem control_pump_never_raises:
  "(\<exists>r w'. control_pump cfg n a w = Inr (r, w'))
   \<and> (n \<noteq> 1 \<and> n \<noteq> 2 \<longrightarrow> (\<exists>r. control_pump cfg n a w = Inr (r, w) \<and> \<not> success r))
   \<and> (\<not> gpio_initialized w \<longrightarrow>
        control_pump cfg n a w
          = Inr (\<lparr>success = False, message = ''GPIO not available''\<rparr>, w))"
proof (intro conjI impI)
  show "\<exists>r w'. control_pump cfg n a w = Inr (r, w')"
    by (rule control_pump_returns)
next
  assume "n \<noteq> 1 \<and> n \<noteq> 2"
  then show "\<exists>r. control_pump cfg n a w = Inr (r, w) \<and> \<not> success r"
    using control_pump_invalid [of n w cfg a] control_pump_degraded [of w cfg n a]
    by (cases "gpio_initialized w") auto
next
  assume "\<not> gpio_initialized w"
  then show "control_pump cfg n a w
          = Inr (\<lparr>success = False, message = ''GPIO not available''\<rparr>, w)"
    by (rule control_pump_degraded)
qed

text \<open>The theorem at channel 3 with a working driver, and at channel 1 without one.\<close>

theorem control_pump_never_raises_witness:
  "(3 :: int) \<noteq> 1 \<and> (3 :: int) \<noteq> 2
   \<and> (\<exists>r. control_pump default_config 3 ''ON'' ready_world = Inr (r, ready_world) \<and> \<not> success r)
   \<and> \<not> gpio_initialized degraded_world
   \<and> control_pump default_config 1 ''ON'' degraded_world
       = Inr (\<lparr>success = False, message = ''GPIO not available''\<rparr>, degraded_world)"
  using control_pump_never_raises [of default_config 3 "''ON''" ready_world]
        control_pump_never_raises [of default_config 1 "''ON''" degraded_world]
        not_initialized_degraded_world
  by simp

text \<open>
  Claim C10. \<open>pump_status\<close> follows channel 1 alone: a successful
  \<open>control_pump(1, "ON")\<close> sets it, a successful \<open>control_pump(1, "OFF")\<close> clears it, and a
  call of \<open>control_pump\<close> on channel 2 or of \<open>control_valve\<close> on any valve leaves it as it
  was, whatever it was and whatever the call returns.
\<close>

theorem pump_status_follows_channel_1:
  "(succeeded (control_pump cfg 1 ''ON'' w) \<longrightarrow>
      pump_status (get_status (world_of (control_pump cfg 1 ''ON'' w))))
   \<and> (succeeded (control_pump cfg 1 ''OFF'' w) \<longrightarrow>
      \<not> pump_status (get_status (world_of (control_pump cfg 1 ''OFF'' w))))
   \<and> pump_status (get_status (world_of (control_pump cfg 2 a w))) = pump_status (get_status w)
   \<and> pump_status (get_status (world_of (control_valve cfg n a w))) = pump_status (get_status w)"
proof -
  have on: "pump_status (get_status (world_of (control_pump cfg 1 b w))) = (str_upper b = ''ON'')"
    if "succeeded (control_pump cfg 1 b w)" for b
  proof -
    obtain r w' where eq: "control_pump cfg 1 b w = Inr (r, w')"
      using control_pump_returns by blast
    with that have "success r" by (simp add: succeeded_def)
    with control_pump_status(1) [OF eq] show ?thesis
      by (simp add: eq world_of_def)
  qed
  have two: "pump_status (get_status (world_of (control_pump cfg 2 a w)))
               = pump_status (get_status w)"
  proof -
    obtain r w' where eq: "control_pump cfg 2 a w = Inr (r, w')"
      using control_pump_returns by blast
    with control_pump_status(2) [OF eq] show ?thesis
      by (simp add: world_of_def)
  qed
  have valve: "pump_status (get_status (world_of (control_valve cfg n a w)))
                 = pump_status (get_status w)"
  proof -
    obtain r w' where eq: "control_valve cfg n a w = Inr (r, w')"
      using control_valve_returns by blast
    with control_valve_status [OF eq] show ?thesis
      by (simp add: world_of_def)
  qed
  from on [of "''ON''"] on [of "''OFF''"] two valve str_upper_ON str_upper_OFF
  show ?thesis by simp
qed

text \<open>
  The theorem with a working driver: on, then off; and channel 2 and a valve switched
  while the flag is set.
\<close>

theorem pump_status_follows_channel_1_witness:
  "succeeded (control_pump default_config 1 ''ON'' ready_world)
   \<and> pump_status (get_status (world_of (control_pump default_config 1 ''ON'' ready_world)))
   \<and> succeeded (control_pump default_config 1 ''OFF''
        (world_of (control_pump default_config 1 ''ON'' ready_world)))
   \<and> \<not> pump_status (get_status (world_of (control_pump default_config 1 ''OFF''
        (world_of (control_pump default_config 1 ''ON'' ready_world)))))
   \<and> pump_status (get_status (world_of (control_pump default_config 2 ''ON''
        (world_of (control_pump default_config 1 ''ON'' ready_world)))))
   \<and> pump_status (get_status (world_of (control_valve default_config 1 ''OFF''
        (world_of (control_pump default_config 1 ''ON'' ready_world)))))"
proof -
  let ?on = "world_of (control_pump default_config 1 ''ON'' ready_world)"
  have w1: "working default_config ?on"
    using working_ready_world by (rule control_pump_keeps_working)
  have s1: "succeeded (control_pump default_config 1 ''ON'' ready_world)"
    using working_ready_world by (rule control_pump_trace(1)) simp
  have s2: "succeeded (control_pump default_config 1 ''OFF'' ?on)"
    using w1 by (rule control_pump_trace(1)) simp
  show ?thesis
    using pump_status_follows_channel_1 [of default_config ready_world "''ON''" 1]
          pump_status_follows_channel_1 [of default_config ?on "''ON''" 1]
          pump_status_follows_channel_1 [of default_config ?on "''OFF''" 1]
          s1 s2
    by simp
qed

section \<open>When a detection starts the sequence\<close>

lemma started_cleanup_old_files: "started (cleanup_old_files files w) = started w"
proof -
  have "started (fold (\<lambda>f. add_log_entry (Log_cleaned_up (basename f))) files w) = started w"
    by (induction files arbitrary: w) (simp_all add: frame)
  then show ?thesis by (simp add: cleanup_old_files_def)
qed

lemma system_status_add_detection_record:
  "system_status (add_detection_record ds e) = system_status ds"
  by (simp add: add_detection_record_def Let_def)

lemma get_status_data_store: "get_status (w\<lparr>data_store := ds\<rparr>) = system_status ds"
  by (simp add: get_status_def)

lemma get_status_system_status: "system_status (data_store w) = get_status w"
  by (simp add: get_status_def)

lemma record_audio_raises:
  "\<exists>e w'. record_audio (Inl err) w = Inl (e, w') \<and> started w' = started w"
  by (simp add: record_audio_def Let_def frame)

lemma record_audio_returns:
  "\<exists>w'. record_audio (Inr path) w = Inr (path, w') \<and> started w' = started w
     \<and> snoring_response_active (get_status w') = snoring_response_active (get_status w)"
  by (simp add: record_audio_def Let_def frame)

lemma record_and_predict_started:
  "started (snd (record_and_predict cfg inp w))
     = (case classified inp of
          None \<Rightarrow> started w
        | Some res \<Rightarrow>
            if class_name res \<in> set snoring_labels
               \<and> confidence res > CONFIDENCE_THRESHOLD cfg * 100
               \<and> \<not> snoring_response_active (get_status w)
            then started w @ [Snoring_response]
            else started w)"
proof (cases "capture inp")
  case (Inl err)
  obtain e w1 where ra: "record_audio (Inl err) w = Inl (e, w1)" and s1: "started w1 = started w"
    using record_audio_raises by blast
  show ?thesis
    using Inl ra s1
    by (simp add: record_and_predict_def record_and_predict_try_def bind_outcome_def
          classified_def frame)
next
  case (Inr path)
  obtain w1 where ra: "record_audio (Inr path) w = Inr (path, w1)"
    and s1: "started w1 = started w"
    and f1: "snoring_response_active (get_status w1) = snoring_response_active (get_status w)"
    using record_audio_returns by blast
  show ?thesis
    using Inr ra s1 f1
    by (auto simp: record_and_predict_def record_and_predict_try_def bind_outcome_def
          classified_def Let_def frame started_cleanup_old_files read_already_active_def
          skip_or_start_def start_thread_def
          system_status_add_detection_record get_status_data_store get_status_system_status
          split: option.splits)
qed

lemma ready_world_facts:
  "started ready_world = []" "\<not> snoring_response_active (get_status ready_world)"
  "trace ready_world = []"
  by (simp_all add: ready_world_def initialize_gpio_def initial_world_def add_log_entry_def
        update_status_def get_status_def store_add_log_entry_def Let_def initial_store_def
        initial_status_def)

lemma busy_world_facts:
  "started busy_world = []" "snoring_response_active (get_status busy_world)"
  by (simp_all add: busy_world_def frame ready_world_facts)

lemma classified_cycle_with:
  "classified (cycle_with label conf)
     = Some \<lparr>class_id = (if label = ''snoring'' then 1 else 0), class_name = label,
              confidence = conf, model_type = ''legacy''\<rparr>"
  by (simp add: classified_def cycle_with_def)

text \<open>
  Claim C6, as stated, says that the sequence is started exactly when the label is a
  snoring label and the confidence is above the threshold. With the threshold at 85, a
  cycle that classifies its clip as snoring at 90 while the flag of a running sequence
  is set starts nothing.
\<close>

theorem trigger_skipped_while_active_counterexample:
  "classified (cycle_with ''snoring'' 90) = Some snoring_90
   \<and> class_name snoring_90 \<in> set snoring_labels
   \<and> confidence snoring_90 > CONFIDENCE_THRESHOLD default_config * 100
   \<and> started (snd (record_and_predict default_config (cycle_with ''snoring'' 90) busy_world))
       = started busy_world"
  using record_and_predict_started [of default_config "cycle_with ''snoring'' 90" busy_world]
  by (simp add: classified_cycle_with snoring_90_def snoring_labels_def default_config_def
        busy_world_facts)

text \<open>
  Claim C6, amended. A cycle that reaches a classification starts the actuation
  sequence exactly when the label is one of the snoring labels, the confidence is
  strictly greater than the threshold as a percentage, and the status read at that
  moment does not show a sequence active; it then starts exactly one. A cycle that
  reaches no classification starts none.
\<close>

theorem record_and_predict_trigger:
  "(classified inp = Some res \<longrightarrow>
      started (snd (record_and_predict cfg inp w))
        = (if class_name res \<in> set snoring_labels
              \<and> confidence res > CONFIDENCE_THRESHOLD cfg * 100
              \<and> \<not> snoring_response_active (get_status w)
           then started w @ [Snoring_response]
           else started w))
   \<and> (classified inp = None \<longrightarrow> started (snd (record_and_predict cfg inp w)) = started w)"
  using record_and_predict_started [of cfg inp w] by simp

text \<open>
  The theorem with the threshold at 85: snoring at 90 starts the sequence, snoring at
  80 does not, another label at 99 does not, and snoring at 90 with a sequence active
  does not.
\<close>

theorem record_and_predict_trigger_witness:
  "CONFIDENCE_THRESHOLD default_config * 100 = 85
   \<and> classified (cycle_with ''snoring'' 90) = Some snoring_90
   \<and> started (snd (record_and_predict default_config (cycle_with ''snoring'' 90) ready_world))
       = [Snoring_response]
   \<and> started (snd (record_and_predict default_config (cycle_with ''snoring'' 80) ready_world))
       = []
   \<and> started (snd (record_and_predict default_config (cycle_with ''quiet'' 99) ready_world))
       = []
   \<and> started (snd (record_and_predict default_config (cycle_with ''snoring'' 90) busy_world))
       = []"
  using record_and_predict_trigger [of "cycle_with ''snoring'' 90" snoring_90 default_config ready_world]
        record_and_predict_trigger [of "cycle_with ''snoring'' 80"
          "\<lparr>class_id = 1, class_name = ''snoring'', confidence = 80, model_type = ''legacy''\<rparr>"
          default_config ready_world]
        record_and_predict_trigger [of "cycle_with ''quiet'' 99"
          "\<lparr>class_id = 0, class_name = ''quiet'', confidence = 99, model_type = ''legacy''\<rparr>"
          default_config ready_world]
        record_and_predict_trigger [of "cycle_with ''snoring'' 90" snoring_90 default_config busy_world]
  by (simp add: classified_cycle_with snoring_90_def snoring_labels_def default_config_def
        busy_world_facts ready_world_facts)

section \<open>How the actuation sequence ends\<close>




lemma channel_off_frame:
  "channel_off cfg n (add_log_entry m w) = channel_off cfg n w"
  "channel_off cfg n (update_status f w) = channel_off cfg n w"
  by (simp_all add: channel_off_def frame)

lemma channel_off_level: "level w' = level w \<Longrightarrow> channel_off cfg n w' = channel_off cfg n w"
  by (simp add: channel_off_def)




lemma hold_loop_cancelled_at_once: "stop k \<Longrightarrow> 0 < n \<Longrightarrow> hold_loop stop k n w = (True, w)"
  by (cases n) simp_all




lemma first_stop_iff: "first_stop stop k \<longleftrightarrow> stop k \<and> (\<forall>j<k. \<not> stop j)"
  by (auto simp: first_stop_def list_ex_iff)

lemma hold_loop_stops:
  "j < n \<Longrightarrow> stop (k + j) \<Longrightarrow> (\<forall>i<j. \<not> stop (k + i)) \<Longrightarrow>
   hold_loop stop k n w = (True, w\<lparr>trace := trace w @ replicate j (Sleep 1000)\<rparr>)"
proof (induction n arbitrary: k w j)
  case 0
  then show ?case by simp
next
  case (Suc n)
  show ?case
  proof (cases j)
    case 0
    with Suc.prems show ?thesis by simp
  next
    case (Suc j')
    from Suc.prems(3) Suc have nk: "\<not> stop k" by (metis add.right_neutral zero_less_Suc)
    have a: "j' < n" using Suc.prems(1) Suc by simp
    have b: "stop (Suc k + j')" using Suc.prems(2) Suc by simp
    have c: "\<forall>i<j'. \<not> stop (Suc k + i)"
    proof (intro allI impI)
      fix i assume "i < j'"
      then have "Suc i < j" using Suc by simp
      with Suc.prems(3) have "\<not> stop (k + Suc i)" by blast
      then show "\<not> stop (Suc k + i)" by simp
    qed
    from Suc.IH [OF a b c, of "sleep 1000 w"] nk Suc show ?thesis
      by (simp add: sleep_def)
  qed
qed




lemma control_pump_hw:
  assumes "working cfg w" and "n = 1 \<or> n = 2"
  shows "\<exists>r w'. control_pump cfg n a w = Inr (r, w') \<and> success r \<and> working cfg w'
           \<and> trace w' = trace w @ (if str_upper a = ''ON'' then on_events cfg n else off_events cfg n)
           \<and> level w' =
               (let pump_pin = (if n = 1 then PUMP_RELAY_PIN cfg else PUMP_RELAY_PIN_2 cfg);
                    valve_pin = (if n = 1 then SOLENOID_VALVE_PIN_1 cfg else SOLENOID_VALVE_PIN_2 cfg)
                in if str_upper a = ''ON'' then (level w)(valve_pin := 1, pump_pin := 1)
                   else (level w)(pump_pin := 0, valve_pin := 0))"
  using assms
  by (auto simp: working_def control_pump_def control_pump_try_def bind_outcome_def Let_def
                 gpio_write_def sleep_def add_log_entry_def update_status_def
                 on_events_def off_events_def)


lemma working_trace_update: "working cfg (w\<lparr>trace := t\<rparr>) = working cfg w"
  by (simp add: working_def)

lemma level_on_off:
  "(f :: int \<Rightarrow> int)(v := 1, p := 1, p := 0, v := 0) = f(p := 0, v := 0)"
  by (auto simp: fun_eq_iff)






lemma steps_cancelled:
  assumes wk: "working cfg w" and k: "k < PUMP1_DURATION cfg"
    and st: "stop k" and no: "\<forall>i<k. \<not> stop i"
  shows "\<exists>w'. snoring_response_steps cfg stop w = Inr ((), w')
           \<and> trace w' = trace w @ on_events cfg 1 @ replicate k (Sleep 1000) @ off_events cfg 1
           \<and> level w' = (level w)(PUMP_RELAY_PIN cfg := 0, SOLENOID_VALVE_PIN_1 cfg := 0)"
proof -
  let ?w0 = "add_log_entry (Log_step1_activating (PUMP1_DURATION cfg))
               (add_log_entry Log_response_starting w)"
  have wk0: "working cfg ?w0" using wk by (simp add: working_after_log_status)
  obtain r1 w1 where on: "control_pump cfg 1 ''ON'' ?w0 = Inr (r1, w1)"
    and ok1: "success r1" and wk1: "working cfg w1"
    and tr1: "trace w1 = trace w @ on_events cfg 1"
    and lv1: "level w1 = (level w)(SOLENOID_VALVE_PIN_1 cfg := 1, PUMP_RELAY_PIN cfg := 1)"
    using control_pump_hw [OF wk0, of 1 "''ON''"] by (auto simp: str_upper_ON frame)
  let ?w2 = "w1\<lparr>trace := trace w1 @ replicate k (Sleep 1000)\<rparr>"
  have hold: "hold_loop stop 0 (PUMP1_DURATION cfg) w1 = (True, ?w2)"
    using hold_loop_stops [of k "PUMP1_DURATION cfg" stop 0 w1] k st no by simp
  let ?w3 = "add_log_entry Log_interrupted_pump1 ?w2"
  have wk3: "working cfg ?w3" using wk1 by (simp add: working_after_log_status working_trace_update)
  obtain r4 w4 where off: "control_pump cfg 1 ''OFF'' ?w3 = Inr (r4, w4)"
    and tr4: "trace w4 = trace ?w3 @ off_events cfg 1"
    and lv4: "level w4 = (level ?w3)(PUMP_RELAY_PIN cfg := 0, SOLENOID_VALVE_PIN_1 cfg := 0)"
    using control_pump_hw [OF wk3, of 1 "''OFF''"] by (auto simp: str_upper_OFF)
  have "snoring_response_steps cfg stop w = Inr ((), w4)"
    using on ok1 hold off by (simp add: snoring_response_steps_def bind_outcome_def)
  moreover have "trace w4 = trace w @ on_events cfg 1 @ replicate k (Sleep 1000) @ off_events cfg 1"
    by (simp add: tr4 frame tr1)
  moreover have "level w4 = (level w)(PUMP_RELAY_PIN cfg := 0, SOLENOID_VALVE_PIN_1 cfg := 0)"
    by (simp add: lv4 frame lv1 level_on_off)
  ultimately show ?thesis by blast
qed



lemma finally_frame:
  "trace (snoring_response_finally w) = trace w"
  "level (snoring_response_finally w) = level w"
  "channel_off cfg n (snoring_response_finally w) = channel_off cfg n w"
  "\<not> snoring_response_active (get_status (snoring_response_finally w))"
  by (simp_all add: snoring_response_finally_def frame channel_off_frame)

lemma execute_returned:
  "snoring_response_steps cfg stop (update_status (\<lambda>s. s\<lparr>snoring_response_active := True\<rparr>) w)
     = Inr ((), w') \<Longrightarrow>
   execute_snoring_response cfg stop w = snoring_response_finally w'"
  by (simp add: execute_snoring_response_def snoring_response_rest_def snoring_response_handle_def)

lemma execute_stage1_cancelled:
  assumes wk: "working cfg w" and fs: "first_stop stop k" and k: "k < PUMP1_DURATION cfg"
  shows "trace (execute_snoring_response cfg stop w)
           = trace w @ on_events cfg 1 @ replicate k (Sleep 1000) @ off_events cfg 1
         \<and> level (execute_snoring_response cfg stop w)
           = (level w)(PUMP_RELAY_PIN cfg := 0, SOLENOID_VALVE_PIN_1 cfg := 0)"
proof -
  let ?w0 = "update_status (\<lambda>s. s\<lparr>snoring_response_active := True\<rparr>) w"
  have wk0: "working cfg ?w0" using wk by (simp add: working_after_log_status)
  from fs have st: "stop k" and no: "\<forall>i<k. \<not> stop i" by (simp_all add: first_stop_iff)
  obtain w' where "snoring_response_steps cfg stop ?w0 = Inr ((), w')"
    and "trace w' = trace ?w0 @ on_events cfg 1 @ replicate k (Sleep 1000) @ off_events cfg 1"
    and "level w' = (level ?w0)(PUMP_RELAY_PIN cfg := 0, SOLENOID_VALVE_PIN_1 cfg := 0)"
    using steps_cancelled [OF wk0 k st no] by blast
  then show ?thesis
    by (simp add: execute_returned finally_frame frame)
qed









lemma default_config_values:
  "PUMP1_DURATION default_config = 50" "WAIT_BETWEEN_PUMPS default_config = 60"
  "PUMP2_DURATION default_config = 20"
  "PUMP_RELAY_PIN default_config = 17" "PUMP_RELAY_PIN_2 default_config = 27"
  "SOLENOID_VALVE_PIN_1 default_config = 23" "SOLENOID_VALVE_PIN_2 default_config = 24"
  "on_events default_config 1 = [GpioWrite 23 1, Sleep 100, GpioWrite 17 1]"
  "on_events default_config 2 = [GpioWrite 24 1, Sleep 100, GpioWrite 27 1]"
  "off_events default_config 1 = [GpioWrite 17 0, Sleep 100, GpioWrite 23 0]"
  "off_events default_config 2 = [GpioWrite 27 0, Sleep 100, GpioWrite 24 0]"
  by (simp_all add: default_config_def on_events_def off_events_def)





section \<open>Two detections at the same time\<close>

lemma rest_cancelled_at_once:
  assumes wk: "working default_config w"
  shows "trace (snoring_response_rest default_config (\<lambda>k. True) w)
           = trace w @ [GpioWrite 23 1, Sleep 100, GpioWrite 17 1,
                        GpioWrite 17 0, Sleep 100, GpioWrite 23 0]
         \<and> working default_config (snoring_response_rest default_config (\<lambda>k. True) w)"
proof -
  let ?w1 = "add_log_entry (Log_step1_activating (PUMP1_DURATION default_config))
               (add_log_entry Log_response_starting w)"
  have wk1: "working default_config ?w1"
    using wk by (simp add: working_after_log_status)
  obtain r2 w2 where on: "control_pump default_config 1 ''ON'' ?w1 = Inr (r2, w2)"
    using control_pump_returns by blast
  have ok2: "success r2" using control_pump_trace(1) [OF wk1, of 1 "''ON''"] on
    by (simp add: succeeded_def)
  have wk2: "working default_config w2"
    using control_pump_keeps_working [OF wk1, of 1 "''ON''"] on by (simp add: world_of_def)
  have tr2: "trace w2 = trace w @ [GpioWrite 23 1, Sleep 100, GpioWrite 17 1]"
    using control_pump_trace(2) [OF wk1, of 1 "''ON''"] on
    by (simp add: world_of_def str_upper_ON frame default_config_def)
  have hold: "hold_loop (\<lambda>k. True) 0 (PUMP1_DURATION default_config) w2 = (True, w2)"
    by (rule hold_loop_cancelled_at_once) (simp_all add: default_config_def)
  let ?w3 = "add_log_entry Log_interrupted_pump1 w2"
  have wk3: "working default_config ?w3"
    using wk2 by (simp add: working_after_log_status)
  obtain r4 w4 where off: "control_pump default_config 1 ''OFF'' ?w3 = Inr (r4, w4)"
    using control_pump_returns by blast
  have wk4: "working default_config w4"
    using control_pump_keeps_working [OF wk3, of 1 "''OFF''"] off by (simp add: world_of_def)
  have tr4: "trace w4 = trace w2 @ [GpioWrite 17 0, Sleep 100, GpioWrite 23 0]"
    using control_pump_trace(2) [OF wk3, of 1 "''OFF''"] off
    by (simp add: world_of_def str_upper_OFF frame default_config_def)
  have "snoring_response_steps default_config (\<lambda>k. True) w = Inr ((), w4)"
    using on ok2 hold off by (simp add: snoring_response_steps_def bind_outcome_def)
  then have "snoring_response_rest default_config (\<lambda>k. True) w = w4"
    by (simp add: snoring_response_rest_def snoring_response_handle_def)
  with wk4 tr4 tr2 show ?thesis by simp
qed

lemma two_started:
  "threads (run_schedule default_config snoring_90 stop [0, 1, 0, 1, 2, 3] two_detections)
     = [Det_done, Det_done, Seq_body, Seq_body]
   \<and> started (shared (run_schedule default_config snoring_90 stop [0, 1, 0, 1, 2, 3] two_detections))
     = [Snoring_response, Snoring_response]
   \<and> trace (shared (run_schedule default_config snoring_90 stop [0, 1, 0, 1, 2, 3] two_detections))
     = []
   \<and> working default_config
       (shared (run_schedule default_config snoring_90 stop [0, 1, 0, 1, 2, 3] two_detections))"
  using working_ready_world
  by (simp add: two_detections_def thread_step_def read_already_active_def skip_or_start_def
        start_thread_def frame ready_world_facts Let_def working_after_log_status working_def)

lemma run_schedule_append:
  "run_schedule cfg res stop (xs @ ys) st = run_schedule cfg res stop ys (run_schedule cfg res stop xs st)"
  by (induction xs arbitrary: st) simp_all

text \<open>
  The guard does its work when the second detection looks at the flag after the first
  sequence has set it: one sequence is started and the second detection is skipped.
\<close>

lemma detections_in_turn_start_one_sequence:
  "threads (run_schedule default_config snoring_90 stop [0, 0, 2, 1, 1] two_detections)
     = [Det_done, Det_done, Seq_body]
   \<and> started (shared (run_schedule default_config snoring_90 stop [0, 0, 2, 1, 1] two_detections))
     = [Snoring_response]"
  by (simp add: two_detections_def thread_step_def read_already_active_def skip_or_start_def
        start_thread_def frame ready_world_facts Let_def)

text \<open>
  Claim C1 says that two detections at the same time start at most one sequence,
  because the flag is tested and set in one atomic step. In the code the test is
  \<open>get_status\<close> in \<open>record_and_predict\<close> and the flag is set by the first statement of the
  started thread. Two detections of snoring at 90 percent, each reading the flag before
  either started thread has set it (the schedule 0, 1, 0, 1, 2, 3), start two sequences,
  both inside their \<open>try\<close> block; when the two then run, cancelled at their first poll,
  channel 1 is switched on and off twice.
\<close>

theorem concurrent_detections_start_two_sequences:
  "class_name snoring_90 \<in> set snoring_labels
   \<and> confidence snoring_90 > CONFIDENCE_THRESHOLD default_config * 100
   \<and> threads (run_schedule default_config snoring_90 (\<lambda>k. True) [0, 1, 0, 1, 2, 3] two_detections)
       = [Det_done, Det_done, Seq_body, Seq_body]
   \<and> active_sequences
        (run_schedule default_config snoring_90 (\<lambda>k. True) [0, 1, 0, 1, 2, 3] two_detections) = 2
   \<and> started (shared
        (run_schedule default_config snoring_90 (\<lambda>k. True) [0, 1, 0, 1, 2, 3] two_detections))
       = [Snoring_response, Snoring_response]
   \<and> trace (shared
        (run_schedule default_config snoring_90 (\<lambda>k. True) [0, 1, 0, 1, 2, 3, 2, 3] two_detections))
       = [GpioWrite 23 1, Sleep 100, GpioWrite 17 1, GpioWrite 17 0, Sleep 100, GpioWrite 23 0,
          GpioWrite 23 1, Sleep 100, GpioWrite 17 1, GpioWrite 17 0, Sleep 100, GpioWrite 23 0]"
proof -
  define st where
    "st = run_schedule default_config snoring_90 (\<lambda>k. True) [0, 1, 0, 1, 2, 3] two_detections"
  have th: "threads st = [Det_done, Det_done, Seq_body, Seq_body]"
    and sp: "started (shared st) = [Snoring_response, Snoring_response]"
    and tr: "trace (shared st) = []"
    and wk: "working default_config (shared st)"
    unfolding st_def using two_started [of "\<lambda>k. True"] by blast+
  have act: "active_sequences st = 2"
    by (simp add: active_sequences_def th)
  define w1 where "w1 = snoring_response_rest default_config (\<lambda>k. True) (shared st)"
  have r1: "trace w1 = [GpioWrite 23 1, Sleep 100, GpioWrite 17 1,
                        GpioWrite 17 0, Sleep 100, GpioWrite 23 0]"
    and wk1: "working default_config w1"
    unfolding w1_def using rest_cancelled_at_once [OF wk] tr by simp_all
  have r2: "trace (snoring_response_rest default_config (\<lambda>k. True) w1)
              = trace w1 @ [GpioWrite 23 1, Sleep 100, GpioWrite 17 1,
                        GpioWrite 17 0, Sleep 100, GpioWrite 23 0]"
    using rest_cancelled_at_once [OF wk1] by simp
  have split: "[0, 1, 0, 1, 2, 3, 2, 3] = [0, 1, 0, 1, 2, 3] @ [2, 3 :: nat]" by simp
  have "trace (shared (run_schedule default_config snoring_90 (\<lambda>k. True) [2, 3] st))
          = trace (snoring_response_rest default_config (\<lambda>k. True) w1)"
    by (simp add: thread_step_def th w1_def)
  then have full: "trace (shared
        (run_schedule default_config snoring_90 (\<lambda>k. True) [0, 1, 0, 1, 2, 3, 2, 3] two_detections))
       = trace (snoring_response_rest default_config (\<lambda>k. True) w1)"
    unfolding split run_schedule_append st_def .
  have q: "class_name snoring_90 \<in> set snoring_labels
     \<and> confidence snoring_90 > CONFIDENCE_THRESHOLD default_config * 100"
    by (simp add: snoring_90_def snoring_labels_def default_config_def)
  show ?thesis
    unfolding full r2 r1
    using q th act sp unfolding st_def by simp
qed

section \<open>Starting and stopping the loop\<close>

lemma looping_world_alive: "is_alive (auto_detection_thread looping_world)"
  by (simp add: looping_world_def start_auto_detection_def Let_def ready_world_def
        initialize_gpio_def initial_world_def add_log_entry_def update_status_def
        start_thread_def)

lemma ready_world_no_thread: "auto_detection_thread ready_world = No_thread"
  by (simp add: ready_world_def initialize_gpio_def initial_world_def add_log_entry_def
        update_status_def)

lemma stop_without_loop:
  "auto_detection_thread w = No_thread \<Longrightarrow>
   snd (stop_auto_detection exits w)
     = add_log_entry Log_auto_stopped
         ((update_status (\<lambda>s. s\<lparr>auto_detect_enabled := False\<rparr>) w)\<lparr>stop_event := True\<rparr>)"
  by (simp add: stop_auto_detection_def Let_def update_status_def)

lemma ready_world_event: "\<not> stop_event ready_world"
  by (simp add: ready_world_def initialize_gpio_def initial_world_def add_log_entry_def
        update_status_def)

text \<open>
  Claim C9, as stated, calls \<open>stop_auto_detection\<close> without a running loop a no-op and
  says that stop joins in every case. On a system that has just started, with no loop
  thread, stop sets the stop event, which was clear, so the state is not what it was;
  it joins nothing; and since that event is the one the actuation sequence polls, a
  sequence run in the state that stop left, with the event untouched since, is
  cancelled at its first poll.
\<close>

theorem stop_without_loop_changes_state_counterexample:
  "\<not> is_alive (auto_detection_thread ready_world)
   \<and> \<not> stop_event ready_world
   \<and> stop_event (snd (stop_auto_detection True ready_world))
   \<and> snd (stop_auto_detection True ready_world) \<noteq> ready_world
   \<and> trace (snd (stop_auto_detection True ready_world)) = trace ready_world
   \<and> trace (execute_snoring_response default_config
              (\<lambda>k. stop_event (snd (stop_auto_detection True ready_world)))
              (snd (stop_auto_detection True ready_world)))
       = [GpioWrite 23 1, Sleep 100, GpioWrite 17 1, GpioWrite 17 0, Sleep 100, GpioWrite 23 0]"
proof -
  let ?w = "snd (stop_auto_detection True ready_world)"
  have eq: "?w = add_log_entry Log_auto_stopped
      ((update_status (\<lambda>s. s\<lparr>auto_detect_enabled := False\<rparr>) ready_world)\<lparr>stop_event := True\<rparr>)"
    using ready_world_no_thread by (rule stop_without_loop)
  have ev: "stop_event ?w"
    by (simp add: eq add_log_entry_def)
  have tr: "trace ?w = trace ready_world"
    by (simp add: eq frame)
  have wk: "working default_config ?w"
    using working_ready_world
    by (simp add: eq working_def frame)
  have ne: "?w \<noteq> ready_world"
    using ev ready_world_event by auto
  have fs: "first_stop (\<lambda>k. stop_event ?w) 0"
    using ev by (simp add: first_stop_iff)
  have seq: "trace (execute_snoring_response default_config (\<lambda>k. stop_event ?w) ?w)
       = [GpioWrite 23 1, Sleep 100, GpioWrite 17 1, GpioWrite 17 0, Sleep 100, GpioWrite 23 0]"
    using execute_stage1_cancelled [OF wk fs] tr ready_world_facts(3)
    by (simp add: default_config_values)
  from ev tr ne seq ready_world_event ready_world_no_thread show ?thesis
    by simp
qed

text \<open>
  Claim C9, amended. \<open>start_auto_detection\<close> with a loop thread alive returns a failure
  whose message contains \<open>already running\<close> and changes nothing: no second thread is
  started. Without one it succeeds, clears the stop event and starts one loop thread.
  \<open>stop_auto_detection\<close> returns success whether a loop runs or not, and it is not a
  no-op: in every case it sets the stop event and clears the enabled flag, leaving the
  other status fields, the output lines and the list of started threads as they were.
  It joins the loop thread, with a timeout of five seconds, exactly when that thread is
  alive, after which the thread is alive or not as the join went; this is the only wait
  of the call.
\<close>

theorem auto_detection_start_stop:
  "(is_alive (auto_detection_thread w) \<longrightarrow>
      start_auto_detection w
        = (\<lparr>success = False, message = ''Auto detection '' @ ''already running''\<rparr>, w))
   \<and> (\<not> is_alive (auto_detection_thread w) \<longrightarrow>
      success (fst (start_auto_detection w))
      \<and> \<not> stop_event (snd (start_auto_detection w))
      \<and> is_alive (auto_detection_thread (snd (start_auto_detection w)))
      \<and> started (snd (start_auto_detection w)) = started w @ [Auto_detection_loop])
   \<and> success (fst (stop_auto_detection exits w))
   \<and> stop_event (snd (stop_auto_detection exits w))
   \<and> get_status (snd (stop_auto_detection exits w))
       = (get_status w)\<lparr>auto_detect_enabled := False\<rparr>
   \<and> \<not> auto_detect_enabled (get_status (snd (stop_auto_detection exits w)))
   \<and> started (snd (stop_auto_detection exits w)) = started w
   \<and> level (snd (stop_auto_detection exits w)) = level w
   \<and> trace (snd (stop_auto_detection exits w))
       = trace w @ (if is_alive (auto_detection_thread w) then [Join 5000] else [])
   \<and> auto_detection_thread (snd (stop_auto_detection exits w))
       = (if is_alive (auto_detection_thread w) then Thread (\<not> exits)
          else auto_detection_thread w)"
  by (cases "auto_detection_thread w")
     (simp_all add: start_auto_detection_def stop_auto_detection_def Let_def frame
        get_status_def update_status_def add_log_entry_def store_add_log_entry_def
        start_thread_def)

text \<open>The theorem in a state with the loop running and in one without a loop.\<close>

theorem auto_detection_start_stop_witness:
  "is_alive (auto_detection_thread looping_world)
   \<and> start_auto_detection looping_world
        = (\<lparr>success = False, message = ''Auto detection already running''\<rparr>, looping_world)
   \<and> started (snd (start_auto_detection looping_world)) = [Auto_detection_loop]
   \<and> \<not> is_alive (auto_detection_thread ready_world)
   \<and> success (fst (start_auto_detection ready_world))
   \<and> started (snd (start_auto_detection ready_world)) = [Auto_detection_loop]
   \<and> success (fst (stop_auto_detection True ready_world))
   \<and> stop_event (snd (stop_auto_detection True ready_world))
   \<and> trace (snd (stop_auto_detection True ready_world)) = trace ready_world
   \<and> trace (snd (stop_auto_detection True looping_world)) = trace looping_world @ [Join 5000]
   \<and> auto_detection_thread (snd (stop_auto_detection True looping_world)) = Thread False
   \<and> auto_detection_thread (snd (stop_auto_detection False looping_world)) = Thread True"
proof -
  have s: "started looping_world = [Auto_detection_loop]"
    by (simp add: looping_world_def start_auto_detection_def Let_def ready_world_def
        initialize_gpio_def initial_world_def add_log_entry_def update_status_def
        start_thread_def)
  show ?thesis
    using auto_detection_start_stop [of looping_world True]
          auto_detection_start_stop [of looping_world False]
          auto_detection_start_stop [of ready_world True]
          looping_world_alive ready_world_no_thread s ready_world_facts(1)
    by simp
qed


end
